theory Spec2Isabelle
  imports Main
begin

section \<open>Values, errors and coders\<close>

text \<open>
  The coders of \<^verbatim>\<open>apache_beam/coders/coders.py\<close>. A Python 2 byte string
  (\<^verbatim>\<open>str\<close>) is a \<open>string\<close> (a list of 8-bit characters); a
  \<^verbatim>\<open>unicode\<close> object is the list of its code points.
\<close>

datatype pyval =
    PyNone
  | PyInt int
  | PyStr string
  | PyUnicode "nat list"
  | PyTuple "pyval list"

datatype error =
    NotImplementedError
  | ValueError
  | IndexError
  | AttributeError
  | TypeError
  | UnicodeEncodeError
  | UnicodeDecodeError
  | CapabilityError string

text \<open>
  One constructor per concrete class of the module; the arguments are the attributes the
  constructor of the class stores (\<^verbatim>\<open>__dict__\<close> without the cached
  \<^verbatim>\<open>_impl\<close>). \<open>GlobalWindowCoder\<close> is the singleton coder of the one
  global-window marker, so it carries no argument. \<open>ProtoCoder\<close> carries the name of
  its message type.
\<close>

datatype coder =
    Coder
  | StrUtf8Coder
  | ToStringCoder
  | FastCoder
  | BytesCoder
  | VarIntCoder
  | FloatCoder
  | TimestampCoder
  | SingletonCoder pyval
  | PickleCoder
  | DillCoder
  | DeterministicFastPrimitivesCoder coder string
  | FastPrimitivesCoder coder
  | Base64PickleCoder
  | ProtoCoder string
  | TupleCoder "coder list"
  | TupleSequenceCoder coder
  | IterableCoder coder
  | GlobalWindowCoder
  | IntervalWindowCoder
  | WindowedValueCoder coder coder coder
  | LengthPrefixCoder coder

text \<open>
  The constructors with default arguments.
  \<^verbatim>\<open>FastPrimitivesCoder.__init__(self, fallback_coder=PickleCoder())\<close> and
  \<^verbatim>\<open>WindowedValueCoder.__init__(self, wrapped_value_coder, window_coder=None)\<close>,
  which stores \<^verbatim>\<open>TimestampCoder()\<close> as its timestamp coder and
  \<^verbatim>\<open>PickleCoder()\<close> as its window coder when none is given (a coder object is
  always true in a condition).
\<close>

definition FastPrimitivesCoder_init :: "coder option \<Rightarrow> coder" where
  "FastPrimitivesCoder_init fallback_coder =
     FastPrimitivesCoder (case fallback_coder of None \<Rightarrow> PickleCoder | Some c \<Rightarrow> c)"

definition WindowedValueCoder_init :: "coder \<Rightarrow> coder option \<Rightarrow> coder" where
  "WindowedValueCoder_init wrapped_value_coder window_coder =
     WindowedValueCoder wrapped_value_coder TimestampCoder
       (case window_coder of None \<Rightarrow> PickleCoder | Some w \<Rightarrow> w)"

definition TupleCoder_init :: "coder list \<Rightarrow> coder" where
  "TupleCoder_init components = TupleCoder components"

section \<open>Determinism\<close>

fun is_deterministic :: "coder \<Rightarrow> bool" where
  "is_deterministic Coder = False"
| "is_deterministic StrUtf8Coder = True"
| "is_deterministic ToStringCoder = True"
| "is_deterministic FastCoder = False"
| "is_deterministic BytesCoder = True"
| "is_deterministic VarIntCoder = True"
| "is_deterministic FloatCoder = True"
| "is_deterministic TimestampCoder = True"
| "is_deterministic (SingletonCoder v) = True"
| "is_deterministic PickleCoder = False"
| "is_deterministic DillCoder = False"
| "is_deterministic (DeterministicFastPrimitivesCoder u l) = True"
| "is_deterministic (FastPrimitivesCoder f) = is_deterministic f"
| "is_deterministic Base64PickleCoder = False"
| "is_deterministic (ProtoCoder t) = False"
| "is_deterministic (TupleCoder cs) = list_all is_deterministic cs"
| "is_deterministic (TupleSequenceCoder e) = is_deterministic e"
| "is_deterministic (IterableCoder e) = is_deterministic e"
| "is_deterministic GlobalWindowCoder = True"
| "is_deterministic IntervalWindowCoder = True"
| "is_deterministic (WindowedValueCoder w t wc) = list_all is_deterministic [w, t, wc]"
| "is_deterministic (LengthPrefixCoder v) = is_deterministic v"

section \<open>Component coders and the key/value view\<close>

fun get_component_coders :: "coder \<Rightarrow> coder list" where
  "get_component_coders (TupleCoder cs) = cs"
| "get_component_coders (TupleSequenceCoder e) = [e]"
| "get_component_coders (IterableCoder e) = [e]"
| "get_component_coders (WindowedValueCoder w t wc) = [w, wc]"
| "get_component_coders (LengthPrefixCoder v) = [v]"
| "get_component_coders c = []"

fun is_kv_coder :: "coder \<Rightarrow> bool" where
  "is_kv_coder PickleCoder = True"
| "is_kv_coder DillCoder = True"
| "is_kv_coder (DeterministicFastPrimitivesCoder u l) = True"
| "is_kv_coder (FastPrimitivesCoder f) = True"
| "is_kv_coder Base64PickleCoder = True"
| "is_kv_coder (TupleCoder cs) = (length cs = 2)"
| "is_kv_coder (WindowedValueCoder w t wc) = is_kv_coder w"
| "is_kv_coder c = False"

text \<open>
  \<^verbatim>\<open>Coder.key_coder\<close> and \<^verbatim>\<open>Coder.value_coder\<close>, which the classes
  without a key/value view inherit: both raise, \<^verbatim>\<open>NotImplementedError\<close> when
  \<^verbatim>\<open>is_kv_coder()\<close> holds and \<^verbatim>\<open>ValueError\<close> otherwise.
\<close>

definition base_kv_accessor :: "coder \<Rightarrow> error + coder" where
  "base_kv_accessor c = (if is_kv_coder c then Inl NotImplementedError else Inl ValueError)"

fun key_coder :: "coder \<Rightarrow> error + coder" where
  "key_coder PickleCoder = Inr PickleCoder"
| "key_coder DillCoder = Inr DillCoder"
| "key_coder (DeterministicFastPrimitivesCoder u l) = Inr (DeterministicFastPrimitivesCoder u l)"
| "key_coder (FastPrimitivesCoder f) = Inr (FastPrimitivesCoder f)"
| "key_coder Base64PickleCoder = Inr Base64PickleCoder"
| "key_coder (TupleCoder cs) = (if length cs \<noteq> 2 then Inl ValueError else Inr (cs ! 0))"
| "key_coder (WindowedValueCoder w t wc) = key_coder w"
| "key_coder c = base_kv_accessor c"

fun value_coder :: "coder \<Rightarrow> error + coder" where
  "value_coder PickleCoder = Inr PickleCoder"
| "value_coder DillCoder = Inr DillCoder"
| "value_coder (DeterministicFastPrimitivesCoder u l) = Inr (DeterministicFastPrimitivesCoder u l)"
| "value_coder (FastPrimitivesCoder f) = Inr (FastPrimitivesCoder f)"
| "value_coder Base64PickleCoder = Inr Base64PickleCoder"
| "value_coder (TupleCoder cs) = (if length cs \<noteq> 2 then Inl ValueError else Inr (cs ! 1))"
| "value_coder (IterableCoder e) = Inr e"
| "value_coder (WindowedValueCoder w t wc) = value_coder w"
| "value_coder (LengthPrefixCoder v) = Inr v"
| "value_coder c = base_kv_accessor c"

section \<open>The capabilities the module consumes\<close>

text \<open>
  The module calls code that lies outside it: the object serializer of
  \<^verbatim>\<open>apache_beam.internal.pickler\<close> applied to coders, \<^verbatim>\<open>cPickle\<close>
  applied to values, the implementation handles of \<^verbatim>\<open>coder_impl\<close> behind every
  \<^verbatim>\<open>FastCoder\<close>, \<^verbatim>\<open>get_varint_size\<close> of the stream module, and the
  built-in \<^verbatim>\<open>str\<close>. They are parameters of the model; each may fail. The handle
  operations take the coder whose handle they belong to.
\<close>

record capabilities =
  pickler_dumps :: "coder \<Rightarrow> error + string"
  pickler_loads :: "string \<Rightarrow> error + coder"
  pickle_dumps :: "pyval \<Rightarrow> error + string"
  pickle_loads :: "string \<Rightarrow> error + pyval"
  impl_encode :: "coder \<Rightarrow> pyval \<Rightarrow> error + string"
  impl_decode :: "coder \<Rightarrow> string \<Rightarrow> error + pyval"
  impl_estimate_size :: "coder \<Rightarrow> pyval \<Rightarrow> error + int"
  get_varint_size :: "int \<Rightarrow> error + int"
  py_str :: "pyval \<Rightarrow> error + string"

section \<open>Coder descriptions\<close>

fun class_name :: "coder \<Rightarrow> string" where
  "class_name Coder = ''Coder''"
| "class_name StrUtf8Coder = ''StrUtf8Coder''"
| "class_name ToStringCoder = ''ToStringCoder''"
| "class_name FastCoder = ''FastCoder''"
| "class_name BytesCoder = ''BytesCoder''"
| "class_name VarIntCoder = ''VarIntCoder''"
| "class_name FloatCoder = ''FloatCoder''"
| "class_name TimestampCoder = ''TimestampCoder''"
| "class_name (SingletonCoder v) = ''SingletonCoder''"
| "class_name PickleCoder = ''PickleCoder''"
| "class_name DillCoder = ''DillCoder''"
| "class_name (DeterministicFastPrimitivesCoder u l) = ''DeterministicFastPrimitivesCoder''"
| "class_name (FastPrimitivesCoder f) = ''FastPrimitivesCoder''"
| "class_name Base64PickleCoder = ''Base64PickleCoder''"
| "class_name (ProtoCoder t) = ''ProtoCoder''"
| "class_name (TupleCoder cs) = ''TupleCoder''"
| "class_name (TupleSequenceCoder e) = ''TupleSequenceCoder''"
| "class_name (IterableCoder e) = ''IterableCoder''"
| "class_name GlobalWindowCoder = ''GlobalWindowCoder''"
| "class_name IntervalWindowCoder = ''IntervalWindowCoder''"
| "class_name (WindowedValueCoder w t wc) = ''WindowedValueCoder''"
| "class_name (LengthPrefixCoder v) = ''LengthPrefixCoder''"

text \<open>
  \<^verbatim>\<open>s.split(sep, 1)\<close>: at most one split, at the first occurrence of the separator;
  and list indexing with a non-negative index, which raises \<^verbatim>\<open>IndexError\<close> out of
  range.
\<close>

definition py_split1 :: "char \<Rightarrow> string \<Rightarrow> string list" where
  "py_split1 sep s =
     (case dropWhile (\<lambda>c. c \<noteq> sep) s of
        [] \<Rightarrow> [s]
      | _ # rest \<Rightarrow> [takeWhile (\<lambda>c. c \<noteq> sep) s, rest])"

definition py_index :: "'a list \<Rightarrow> nat \<Rightarrow> error + 'a" where
  "py_index xs i = (if i < length xs then Inr (xs ! i) else Inl IndexError)"

definition serialize_coder :: "capabilities \<Rightarrow> coder \<Rightarrow> error + string" where
  "serialize_coder caps coder =
     (case pickler_dumps caps coder of
        Inl e \<Rightarrow> Inl e
      | Inr blob \<Rightarrow> Inr (class_name coder @ ''$'' @ blob))"

definition deserialize_coder :: "capabilities \<Rightarrow> string \<Rightarrow> error + coder" where
  "deserialize_coder caps serialized =
     (case py_index (py_split1 (CHR ''$'') serialized) 1 of
        Inl e \<Rightarrow> Inl e
      | Inr blob \<Rightarrow> pickler_loads caps blob)"

section \<open>Equality of coders\<close>

text \<open>
  \<^verbatim>\<open>type(self) == type(other)\<close>: the classes are distinct and so are their names.
\<close>

definition same_class :: "coder \<Rightarrow> coder \<Rightarrow> bool" where
  "same_class a b \<longleftrightarrow> class_name a = class_name b"

text \<open>
  \<^verbatim>\<open>self == other\<close>, class by class, as each \<^verbatim>\<open>__eq__\<close> is written. The
  classes without an \<^verbatim>\<open>__eq__\<close> of their own inherit \<^verbatim>\<open>Coder.__eq__\<close>,
  which compares the classes and then the attribute dictionaries (without the cached
  handle). Every \<^verbatim>\<open>__eq__\<close> answers \<open>False\<close> for another class, so the answer
  does not depend on which operand Python asks first. \<open>coders_eq\<close> is the equality of
  two tuples of coders. Values compare by their structure.
\<close>

fun coder_eq :: "coder \<Rightarrow> coder \<Rightarrow> bool"
  and coders_eq :: "coder list \<Rightarrow> coder list \<Rightarrow> bool" where
  "coder_eq Coder other = same_class Coder other"
| "coder_eq StrUtf8Coder other = same_class StrUtf8Coder other"
| "coder_eq ToStringCoder other = same_class ToStringCoder other"
| "coder_eq FastCoder other = same_class FastCoder other"
| "coder_eq BytesCoder other = same_class BytesCoder other"
| "coder_eq VarIntCoder other = same_class VarIntCoder other"
| "coder_eq FloatCoder other = same_class FloatCoder other"
| "coder_eq TimestampCoder other = same_class TimestampCoder other"
| "coder_eq (SingletonCoder v) other =
     (case other of SingletonCoder v' \<Rightarrow> v = v' | _ \<Rightarrow> False)"
| "coder_eq PickleCoder other = same_class PickleCoder other"
| "coder_eq DillCoder other = same_class DillCoder other"
| "coder_eq (DeterministicFastPrimitivesCoder u l) other =
     (case other of
        DeterministicFastPrimitivesCoder u' l' \<Rightarrow> coder_eq u u' \<and> l = l'
      | _ \<Rightarrow> False)"
| "coder_eq (FastPrimitivesCoder f) other = same_class (FastPrimitivesCoder f) other"
| "coder_eq Base64PickleCoder other = same_class Base64PickleCoder other"
| "coder_eq (ProtoCoder t) other =
     (case other of ProtoCoder t' \<Rightarrow> t = t' | _ \<Rightarrow> False)"
| "coder_eq (TupleCoder cs) other =
     (same_class (TupleCoder cs) other \<and> coders_eq cs cs)"
| "coder_eq (TupleSequenceCoder e) other =
     (same_class (TupleSequenceCoder e) other \<and> coder_eq e e)"
| "coder_eq (IterableCoder e) other =
     (same_class (IterableCoder e) other \<and> coder_eq e e)"
| "coder_eq GlobalWindowCoder other = same_class GlobalWindowCoder other"
| "coder_eq IntervalWindowCoder other = same_class IntervalWindowCoder other"
| "coder_eq (WindowedValueCoder w t wc) other =
     (case other of
        WindowedValueCoder w' t' wc' \<Rightarrow> coder_eq w w' \<and> coder_eq t t' \<and> coder_eq wc wc'
      | _ \<Rightarrow> False)"
| "coder_eq (LengthPrefixCoder v) other =
     (case other of LengthPrefixCoder v' \<Rightarrow> coder_eq v v' | _ \<Rightarrow> False)"
| "coders_eq [] ys = (ys = [])"
| "coders_eq (x # xs) ys =
     (case ys of [] \<Rightarrow> False | y # ys' \<Rightarrow> coder_eq x y \<and> coders_eq xs ys')"

section \<open>The external schema\<close>

text \<open>
  The dictionary \<^verbatim>\<open>as_cloud_object\<close> returns: the \<^verbatim>\<open>@type\<close> tag and the
  optional keys, \<open>None\<close> for a key the dictionary does not have.
\<close>

datatype cloud_object =
  CloudObject
    (type_tag: string)
    (is_pair_like: "bool option")
    (is_stream_like: "bool option")
    (is_wrapper: "bool option")
    (component_encodings: "cloud_object list option")

text \<open>
  \<^verbatim>\<open>Coder.as_cloud_object\<close>; its second argument is the list comprehension over the
  component coders, evaluated after the type tag.
\<close>

definition Coder_as_cloud_object ::
  "capabilities \<Rightarrow> coder \<Rightarrow> error + cloud_object list \<Rightarrow> error + cloud_object" where
  "Coder_as_cloud_object caps self components =
     (case serialize_coder caps self of
        Inl e \<Rightarrow> Inl e
      | Inr t \<Rightarrow>
          (case components of
             Inl e \<Rightarrow> Inl e
           | Inr cs \<Rightarrow> Inr (CloudObject t None None None (Some cs))))"

text \<open>
  \<^verbatim>\<open>as_cloud_object(self, is_pair_like=True)\<close> of \<^verbatim>\<open>_PickleCoderBase\<close> and
  of \<^verbatim>\<open>FastPrimitivesCoder\<close>: neither class has component coders.
\<close>

function pair_like_as_cloud_object :: "capabilities \<Rightarrow> coder \<Rightarrow> bool \<Rightarrow> error + cloud_object" where
  "pair_like_as_cloud_object caps self False = Coder_as_cloud_object caps self (Inr [])"
| "pair_like_as_cloud_object caps self True =
     (case Coder_as_cloud_object caps self (Inr []) of
        Inl e \<Rightarrow> Inl e
      | Inr v \<Rightarrow>
          (case pair_like_as_cloud_object caps self False of
             Inl e \<Rightarrow> Inl e
           | Inr c1 \<Rightarrow>
               (case pair_like_as_cloud_object caps self False of
                  Inl e \<Rightarrow> Inl e
                | Inr c2 \<Rightarrow>
                    Inr (CloudObject (type_tag v) (Some True) (is_stream_like v) (is_wrapper v)
                          (Some [c1, c2])))))"
  by pat_completeness auto
termination
  by (relation "measure (\<lambda>(caps, self, is_pair_like). if is_pair_like then 1 else 0)") auto

fun as_cloud_object :: "capabilities \<Rightarrow> coder \<Rightarrow> error + cloud_object"
  and as_cloud_objects :: "capabilities \<Rightarrow> coder list \<Rightarrow> error + cloud_object list" where
  "as_cloud_object caps PickleCoder = pair_like_as_cloud_object caps PickleCoder True"
| "as_cloud_object caps DillCoder = pair_like_as_cloud_object caps DillCoder True"
| "as_cloud_object caps (FastPrimitivesCoder f) =
     pair_like_as_cloud_object caps (FastPrimitivesCoder f) True"
| "as_cloud_object caps (TupleCoder cs) =
     (if is_kv_coder (TupleCoder cs) then
        (case as_cloud_objects caps cs of
           Inl e \<Rightarrow> Inl e
         | Inr ds \<Rightarrow> Inr (CloudObject ''kind:pair'' (Some True) None None (Some ds)))
      else Coder_as_cloud_object caps (TupleCoder cs) (as_cloud_objects caps cs))"
| "as_cloud_object caps (TupleSequenceCoder e) =
     Coder_as_cloud_object caps (TupleSequenceCoder e)
       (case as_cloud_object caps e of Inl err \<Rightarrow> Inl err | Inr d \<Rightarrow> Inr [d])"
| "as_cloud_object caps (IterableCoder e) =
     (case as_cloud_object caps e of
        Inl err \<Rightarrow> Inl err
      | Inr d \<Rightarrow> Inr (CloudObject ''kind:stream'' None (Some True) None (Some [d])))"
| "as_cloud_object caps GlobalWindowCoder =
     Inr (CloudObject ''kind:global_window'' None None None None)"
| "as_cloud_object caps IntervalWindowCoder =
     Inr (CloudObject ''kind:interval_window'' None None None None)"
| "as_cloud_object caps (WindowedValueCoder w t wc) =
     (case as_cloud_object caps w of
        Inl e \<Rightarrow> Inl e
      | Inr d1 \<Rightarrow>
          (case as_cloud_object caps wc of
             Inl e \<Rightarrow> Inl e
           | Inr d2 \<Rightarrow>
               Inr (CloudObject ''kind:windowed_value'' None None (Some True) (Some [d1, d2]))))"
| "as_cloud_object caps (LengthPrefixCoder v) =
     (case as_cloud_object caps v of
        Inl e \<Rightarrow> Inl e
      | Inr d \<Rightarrow> Inr (CloudObject ''kind:length_prefix'' None None None (Some [d])))"
| "as_cloud_object caps c = Coder_as_cloud_object caps c (Inr [])"
| "as_cloud_objects caps [] = Inr []"
| "as_cloud_objects caps (c # cs) =
     (case as_cloud_object caps c of
        Inl e \<Rightarrow> Inl e
      | Inr d \<Rightarrow> (case as_cloud_objects caps cs of Inl e \<Rightarrow> Inl e | Inr ds \<Rightarrow> Inr (d # ds)))"

section \<open>The codecs of the Python library\<close>

text \<open>
  \<^verbatim>\<open>unicode.encode('utf-8')\<close> and \<^verbatim>\<open>str.decode('utf-8')\<close> as Python 2.7
  implements them, on a build whose unicode objects hold code points (below
  \<open>0x110000\<close>) rather than 16-bit units. The encoder writes one to four bytes for a
  code point; a high surrogate that is followed by a low surrogate is written, together
  with it, as the four bytes of the code point the pair stands for, and any other
  surrogate as three bytes. The decoder rejects truncated, overlong and out-of-range
  sequences, and accepts the three-byte sequence of a surrogate. \<open>has_surrogate_pair\<close>
  says that somewhere in a string a high surrogate is followed by a low surrogate.
  Applied to a byte string, \<^verbatim>\<open>encode\<close> first decodes it as ASCII; a value of
  another type has no such method.
\<close>

definition is_high_surrogate :: "nat \<Rightarrow> bool" where
  "is_high_surrogate ch \<longleftrightarrow> 0xD800 \<le> ch \<and> ch \<le> 0xDBFF"

definition is_low_surrogate :: "nat \<Rightarrow> bool" where
  "is_low_surrogate ch \<longleftrightarrow> 0xDC00 \<le> ch \<and> ch \<le> 0xDFFF"

definition utf8_encode_char :: "nat \<Rightarrow> string" where
  "utf8_encode_char c =
     (if c < 0x80 then [char_of c]
      else if c < 0x800 then [char_of (0xC0 + c div 64), char_of (0x80 + c mod 64)]
      else if c < 0x10000 then
        [char_of (0xE0 + c div 4096), char_of (0x80 + c div 64 mod 64), char_of (0x80 + c mod 64)]
      else
        [char_of (0xF0 + c div 262144), char_of (0x80 + c div 4096 mod 64),
         char_of (0x80 + c div 64 mod 64), char_of (0x80 + c mod 64)])"

fun utf8_encode :: "nat list \<Rightarrow> string" where
  "utf8_encode [] = []"
| "utf8_encode [ch] = utf8_encode_char ch"
| "utf8_encode (ch # ch2 # s) =
     (if is_high_surrogate ch \<and> is_low_surrogate ch2 then
        utf8_encode_char ((ch - 0xD800) * 1024 + (ch2 - 0xDC00) + 0x10000) @ utf8_encode s
      else utf8_encode_char ch @ utf8_encode (ch2 # s))"






definition py_encode_utf8 :: "pyval \<Rightarrow> error + string" where
  "py_encode_utf8 v =
     (case v of
        PyUnicode cs \<Rightarrow> Inr (utf8_encode cs)
      | PyStr s \<Rightarrow> (if list_all (\<lambda>b. (of_char b :: nat) < 0x80) s then Inr s
                    else Inl UnicodeDecodeError)
      | _ \<Rightarrow> Inl AttributeError)"


text \<open>
  \<^verbatim>\<open>base64.b64encode\<close> and \<^verbatim>\<open>base64.b64decode\<close>, as RFC 4648 defines the
  standard alphabet with \<open>=\<close> padding. The decoder reads groups of four characters and
  fails (\<^verbatim>\<open>TypeError\<close> in Python 2) on anything else; the library's decoder
  moreover skips characters outside the alphabet, which no encoder output contains.
\<close>

definition b64_char :: "nat \<Rightarrow> char" where
  "b64_char n =
     char_of (if n < 26 then 65 + n else if n < 52 then 71 + n else if n < 62 then n - 4
              else if n = 62 then 43 else 47)"


fun b64encode :: "string \<Rightarrow> string" where
  "b64encode [] = []"
| "b64encode [a] =
     (let x = (of_char a :: nat) in
      [b64_char (x div 4), b64_char (x mod 4 * 16), CHR ''='', CHR ''=''])"
| "b64encode [a, b] =
     (let x = (of_char a :: nat); y = (of_char b :: nat) in
      [b64_char (x div 4), b64_char (x mod 4 * 16 + y div 16), b64_char (y mod 16 * 4),
       CHR ''=''])"
| "b64encode (a # b # c # r) =
     (let x = (of_char a :: nat); y = (of_char b :: nat); z = (of_char c :: nat) in
      [b64_char (x div 4), b64_char (x mod 4 * 16 + y div 16),
       b64_char (y mod 16 * 4 + z div 64), b64_char (z mod 64)] @ b64encode r)"


section \<open>Encoding and decoding\<close>

text \<open>
  \<^verbatim>\<open>get_impl\<close> builds the implementation handle with \<^verbatim>\<open>_create_impl\<close>:
  \<^verbatim>\<open>FastCoder._create_impl\<close> raises, a composite coder first builds the handles of
  its components, \<^verbatim>\<open>LengthPrefixCoder\<close> passes its value coder itself, and every
  other class builds its handle directly.
\<close>

fun create_impl :: "coder \<Rightarrow> error + unit"
  and create_impls :: "coder list \<Rightarrow> error + unit" where
  "create_impl FastCoder = Inl NotImplementedError"
| "create_impl (DeterministicFastPrimitivesCoder u l) = create_impl u"
| "create_impl (FastPrimitivesCoder f) = create_impl f"
| "create_impl (TupleCoder cs) = create_impls cs"
| "create_impl (TupleSequenceCoder e) = create_impl e"
| "create_impl (IterableCoder e) = create_impl e"
| "create_impl (WindowedValueCoder w t wc) =
     (case create_impl w of
        Inl e \<Rightarrow> Inl e
      | Inr _ \<Rightarrow> (case create_impl t of Inl e \<Rightarrow> Inl e | Inr _ \<Rightarrow> create_impl wc))"
| "create_impl c = Inr ()"
| "create_impls [] = Inr ()"
| "create_impls (c # cs) = (case create_impl c of Inl e \<Rightarrow> Inl e | Inr _ \<Rightarrow> create_impls cs)"

definition FastCoder_encode :: "capabilities \<Rightarrow> coder \<Rightarrow> pyval \<Rightarrow> error + string" where
  "FastCoder_encode caps self v =
     (case create_impl self of Inl e \<Rightarrow> Inl e | Inr _ \<Rightarrow> impl_encode caps self v)"


definition FastCoder_estimate_size :: "capabilities \<Rightarrow> coder \<Rightarrow> pyval \<Rightarrow> error + int" where
  "FastCoder_estimate_size caps self v =
     (case create_impl self of Inl e \<Rightarrow> Inl e | Inr _ \<Rightarrow> impl_estimate_size caps self v)"

text \<open>
  \<^verbatim>\<open>encode\<close> and \<^verbatim>\<open>decode\<close>: the base class raises, the direct coders
  \<open>StrUtf8Coder\<close>, \<open>ToStringCoder\<close> and \<open>Base64PickleCoder\<close> have their own, and
  every other class inherits those of \<^verbatim>\<open>FastCoder\<close>.
\<close>

fun encode :: "capabilities \<Rightarrow> coder \<Rightarrow> pyval \<Rightarrow> error + string" where
  "encode caps Coder v = Inl NotImplementedError"
| "encode caps StrUtf8Coder v = py_encode_utf8 v"
| "encode caps ToStringCoder v =
     (case v of PyUnicode cs \<Rightarrow> Inr (utf8_encode cs) | PyStr s \<Rightarrow> Inr s
      | _ \<Rightarrow> py_str caps v)"
| "encode caps Base64PickleCoder v =
     (case pickle_dumps caps v of Inl e \<Rightarrow> Inl e | Inr p \<Rightarrow> Inr (b64encode p))"
| "encode caps c v = FastCoder_encode caps c v"



text \<open>
  \<^verbatim>\<open>estimate_size\<close>: \<^verbatim>\<open>Coder.estimate_size\<close> is the length of the encoding,
  \<^verbatim>\<open>FastCoder.estimate_size\<close> asks the handle, and \<^verbatim>\<open>LengthPrefixCoder\<close>
  adds the size of the length prefix to the estimate of its value coder.
\<close>

definition Coder_estimate_size :: "capabilities \<Rightarrow> coder \<Rightarrow> pyval \<Rightarrow> error + int" where
  "Coder_estimate_size caps self v =
     (case encode caps self v of Inl e \<Rightarrow> Inl e | Inr b \<Rightarrow> Inr (int (length b)))"

fun estimate_size :: "capabilities \<Rightarrow> coder \<Rightarrow> pyval \<Rightarrow> error + int" where
  "estimate_size caps Coder v = Coder_estimate_size caps Coder v"
| "estimate_size caps StrUtf8Coder v = Coder_estimate_size caps StrUtf8Coder v"
| "estimate_size caps ToStringCoder v = Coder_estimate_size caps ToStringCoder v"
| "estimate_size caps Base64PickleCoder v = Coder_estimate_size caps Base64PickleCoder v"
| "estimate_size caps (LengthPrefixCoder inner) v =
     (case estimate_size caps inner v of
        Inl e \<Rightarrow> Inl e
      | Inr value_size \<Rightarrow>
          (case get_varint_size caps value_size of
             Inl e \<Rightarrow> Inl e
           | Inr n \<Rightarrow> Inr (n + value_size)))"
| "estimate_size caps c v = FastCoder_estimate_size caps c v"

section \<open>Composite coders\<close>


text \<open>
  The composite kinds of the determinism rule: a tuple coder, a homogeneous-sequence coder,
  an iterable coder, and a windowed-value coder as its constructor builds it (its timestamp
  coder is \<open>TimestampCoder\<close>).
\<close>

fun is_composite :: "coder \<Rightarrow> bool" where
  "is_composite (TupleCoder cs) = True"
| "is_composite (TupleSequenceCoder e) = True"
| "is_composite (IterableCoder e) = True"
| "is_composite (WindowedValueCoder w t wc) = (t = TimestampCoder)"
| "is_composite c = False"

text \<open>
  The kinds whose \<^verbatim>\<open>as_cloud_object\<close> writes the pair shape: the pickle-backed
  coders and the fast-primitives coder (through \<open>pair_like_as_cloud_object\<close>) and the
  tuple coder of two components.
\<close>

fun pair_like_kind :: "coder \<Rightarrow> bool" where
  "pair_like_kind PickleCoder = True"
| "pair_like_kind DillCoder = True"
| "pair_like_kind (FastPrimitivesCoder f) = True"
| "pair_like_kind (TupleCoder cs) = (length cs = 2)"
| "pair_like_kind c = False"

section \<open>A reference instance of the capabilities\<close>

text \<open>
  A small instance of the capabilities, on which the definitions are evaluated at concrete
  inputs: a coder serializer that knows four coders (its blobs contain a \<open>$\<close>), a
  value serializer for \<open>None\<close> and byte strings, the handle of \<open>BytesCoder\<close>, and
  the number of 7-bit groups of an integer as the size of its variable-length encoding.
\<close>

definition reference_pickler_dumps :: "coder \<Rightarrow> error + string" where
  "reference_pickler_dumps c =
     (if c = VarIntCoder then Inr ''c$V''
      else if c = BytesCoder then Inr ''c$B''
      else if c = PickleCoder then Inr ''c$P''
      else if c = TupleCoder [VarIntCoder, BytesCoder] then Inr ''c$T''
      else Inl (CapabilityError ''PicklingError''))"

definition reference_pickler_loads :: "string \<Rightarrow> error + coder" where
  "reference_pickler_loads blob =
     (if blob = ''c$V'' then Inr VarIntCoder
      else if blob = ''c$B'' then Inr BytesCoder
      else if blob = ''c$P'' then Inr PickleCoder
      else if blob = ''c$T'' then Inr (TupleCoder [VarIntCoder, BytesCoder])
      else Inl (CapabilityError ''UnpicklingError''))"

fun reference_pickle_dumps :: "pyval \<Rightarrow> error + string" where
  "reference_pickle_dumps PyNone = Inr ''N''"
| "reference_pickle_dumps (PyStr s) = Inr (CHR ''S'' # s)"
| "reference_pickle_dumps v = Inl (CapabilityError ''PicklingError'')"

fun reference_pickle_loads :: "string \<Rightarrow> error + pyval" where
  "reference_pickle_loads [] = Inl (CapabilityError ''UnpicklingError'')"
| "reference_pickle_loads (c # r) =
     (if c = CHR ''N'' \<and> r = [] then Inr PyNone
      else if c = CHR ''S'' then Inr (PyStr r)
      else Inl (CapabilityError ''UnpicklingError''))"

fun reference_impl_encode :: "coder \<Rightarrow> pyval \<Rightarrow> error + string" where
  "reference_impl_encode BytesCoder (PyStr s) = Inr s"
| "reference_impl_encode c v = Inl TypeError"

fun reference_impl_decode :: "coder \<Rightarrow> string \<Rightarrow> error + pyval" where
  "reference_impl_decode BytesCoder s = Inr (PyStr s)"
| "reference_impl_decode c s = Inl (CapabilityError ''DecodeError'')"

fun reference_impl_estimate_size :: "coder \<Rightarrow> pyval \<Rightarrow> error + int" where
  "reference_impl_estimate_size BytesCoder (PyStr s) = Inr (int (length s))"
| "reference_impl_estimate_size c v = Inl TypeError"

function varint_groups :: "nat \<Rightarrow> nat" where
  "varint_groups n = (if n < 128 then 1 else 1 + varint_groups (n div 128))"
  by pat_completeness auto
termination
  by (relation "measure id") auto

definition reference_get_varint_size :: "int \<Rightarrow> error + int" where
  "reference_get_varint_size v =
     (if v < 0 \<and> v + 2 ^ 64 \<le> 0 then Inl ValueError
      else Inr (int (varint_groups (nat (if v < 0 then v + 2 ^ 64 else v)))))"

fun reference_py_str :: "pyval \<Rightarrow> error + string" where
  "reference_py_str PyNone = Inr ''None''"
| "reference_py_str (PyStr s) = Inr s"
| "reference_py_str v = Inl (CapabilityError ''str'')"

definition reference_capabilities :: capabilities where
  "reference_capabilities =
     \<lparr> pickler_dumps = reference_pickler_dumps,
       pickler_loads = reference_pickler_loads,
       pickle_dumps = reference_pickle_dumps,
       pickle_loads = reference_pickle_loads,
       impl_encode = reference_impl_encode,
       impl_decode = reference_impl_decode,
       impl_estimate_size = reference_impl_estimate_size,
       get_varint_size = reference_get_varint_size,
       py_str = reference_py_str \<rparr>"

section \<open>Properties of the model\<close>

lemma reference_capabilities_simps [simp]:
  "pickler_dumps reference_capabilities = reference_pickler_dumps"
  "pickler_loads reference_capabilities = reference_pickler_loads"
  "pickle_dumps reference_capabilities = reference_pickle_dumps"
  "pickle_loads reference_capabilities = reference_pickle_loads"
  "impl_encode reference_capabilities = reference_impl_encode"
  "impl_decode reference_capabilities = reference_impl_decode"
  "impl_estimate_size reference_capabilities = reference_impl_estimate_size"
  "get_varint_size reference_capabilities = reference_get_varint_size"
  "py_str reference_capabilities = reference_py_str"
  by (simp_all add: reference_capabilities_def)

lemma reference_pickler_roundtrip:
  "reference_pickler_dumps c = Inr blob \<Longrightarrow> reference_pickler_loads blob = Inr c"
  by (auto simp: reference_pickler_dumps_def reference_pickler_loads_def split: if_splits)

lemma class_name_no_dollar: "CHR ''$'' \<notin> set (class_name c)"
  by (cases c) simp_all

lemma dropWhile_no_sep: "sep \<notin> set s \<Longrightarrow> dropWhile (\<lambda>c. c \<noteq> sep) s = []"
  by (induction s) auto

lemma takeWhile_no_sep: "sep \<notin> set s \<Longrightarrow> takeWhile (\<lambda>c. c \<noteq> sep) s = s"
  by (induction s) auto

lemma py_split1_no_sep: "sep \<notin> set s \<Longrightarrow> py_split1 sep s = [s]"
  by (simp add: py_split1_def dropWhile_no_sep)

lemma py_split1_first_sep:
  "sep \<notin> set k \<Longrightarrow> py_split1 sep (k @ sep # rest) = [k, rest]"
proof (induction k)
  case Nil
  then show ?case by (simp add: py_split1_def)
next
  case (Cons a k)
  then show ?case by (auto simp: py_split1_def split: list.splits)
qed

lemma py_split1_with_sep:
  "sep \<in> set s \<Longrightarrow>
   py_split1 sep s = [takeWhile (\<lambda>c. c \<noteq> sep) s, tl (dropWhile (\<lambda>c. c \<noteq> sep) s)]"
  by (induction s) (auto simp: py_split1_def split: list.splits)

lemma coders_eq_refl_aux: "(\<And>x. x \<in> set cs \<Longrightarrow> coder_eq x x) \<Longrightarrow> coders_eq cs cs"
  by (induction cs) simp_all

lemma coder_eq_refl: "coder_eq c c"
  by (induction c) (simp_all add: same_class_def coders_eq_refl_aux)

lemma deserialize_coder_tagged:
  "CHR ''$'' \<notin> set kind \<Longrightarrow>
   deserialize_coder caps (kind @ ''$'' @ blob) = pickler_loads caps blob"
  by (simp add: deserialize_coder_def py_split1_first_sep py_index_def)

lemma deserialize_coder_untagged:
  "CHR ''$'' \<notin> set s \<Longrightarrow> deserialize_coder caps s = Inl IndexError"
  by (simp add: deserialize_coder_def py_split1_no_sep py_index_def)

lemma list_all_is_deterministic:
  "list_all is_deterministic cs \<longleftrightarrow> (\<forall>c\<in>set cs. is_deterministic c)"
  by (simp add: list_all_iff)

text \<open>
  Claim C2. A tuple, homogeneous-sequence, iterable or windowed-value coder is deterministic
  if and only if all of its component coders are; so one built with a non-deterministic
  component is not deterministic. For the windowed-value coder this holds of its three
  stored coders (value, timestamp, window) and, as its constructor builds it, of the two
  component coders it reports.
\<close>

theorem composite_is_deterministic_iff:
  "(is_composite c \<longrightarrow>
      (is_deterministic c \<longleftrightarrow> (\<forall>x\<in>set (get_component_coders c). is_deterministic x)))
   \<and> (is_deterministic (WindowedValueCoder w t wc) \<longleftrightarrow>
        is_deterministic w \<and> is_deterministic t \<and> is_deterministic wc)
   \<and> (is_composite c \<longrightarrow> (\<exists>x\<in>set (get_component_coders c). \<not> is_deterministic x)
        \<longrightarrow> \<not> is_deterministic c)"
proof -
  have iff: "is_deterministic c \<longleftrightarrow> (\<forall>x\<in>set (get_component_coders c). is_deterministic x)"
    if "is_composite c"
    using that by (cases c) (simp_all add: list_all_is_deterministic)
  have wv: "is_deterministic (WindowedValueCoder w t wc) \<longleftrightarrow>
      is_deterministic w \<and> is_deterministic t \<and> is_deterministic wc"
    by simp
  from iff wv show ?thesis by blast
qed

theorem composite_is_deterministic_iff_witness:
  "is_composite (TupleCoder_init [VarIntCoder, BytesCoder])
   \<and> is_deterministic (TupleCoder_init [VarIntCoder, BytesCoder])
   \<and> is_composite (TupleCoder_init [VarIntCoder, PickleCoder])
   \<and> \<not> is_deterministic (TupleCoder_init [VarIntCoder, PickleCoder])
   \<and> is_composite (WindowedValueCoder_init VarIntCoder None)
   \<and> \<not> is_deterministic (WindowedValueCoder_init VarIntCoder None)
   \<and> is_composite (WindowedValueCoder_init VarIntCoder (Some IntervalWindowCoder))
   \<and> is_deterministic (WindowedValueCoder_init VarIntCoder (Some IntervalWindowCoder))
   \<and> is_composite (IterableCoder Base64PickleCoder)
   \<and> \<not> is_deterministic (IterableCoder Base64PickleCoder)
   \<and> is_composite (TupleSequenceCoder StrUtf8Coder)
   \<and> is_deterministic (TupleSequenceCoder StrUtf8Coder)"
  using composite_is_deterministic_iff [of "TupleCoder_init [VarIntCoder, BytesCoder]"]
    composite_is_deterministic_iff [of "TupleCoder_init [VarIntCoder, PickleCoder]"]
    composite_is_deterministic_iff [of "WindowedValueCoder_init VarIntCoder None"]
    composite_is_deterministic_iff [of "WindowedValueCoder_init VarIntCoder (Some IntervalWindowCoder)"]
    composite_is_deterministic_iff [of "IterableCoder Base64PickleCoder"]
    composite_is_deterministic_iff [of "TupleSequenceCoder StrUtf8Coder"]
  by (simp add: TupleCoder_init_def WindowedValueCoder_init_def)

section \<open>The key/value view\<close>

text \<open>
  Claim C4. A tuple coder built from exactly two components \<open>k\<close>, \<open>v\<close> is a KV coder,
  its key coder is \<open>k\<close> and its value coder is \<open>v\<close>; one built from any other number
  of components is not a KV coder, and both accessors fail (with \<open>ValueError\<close>).
\<close>

theorem tuple_coder_kv_duality:
  "is_kv_coder (TupleCoder_init [k, v])
   \<and> key_coder (TupleCoder_init [k, v]) = Inr k
   \<and> value_coder (TupleCoder_init [k, v]) = Inr v
   \<and> (length cs \<noteq> 2 \<longrightarrow>
        \<not> is_kv_coder (TupleCoder_init cs)
        \<and> key_coder (TupleCoder_init cs) = Inl ValueError
        \<and> value_coder (TupleCoder_init cs) = Inl ValueError)"
  by (simp add: TupleCoder_init_def)

theorem tuple_coder_kv_duality_witness:
  "\<not> is_kv_coder (TupleCoder_init [VarIntCoder])
   \<and> key_coder (TupleCoder_init [VarIntCoder]) = Inl ValueError
   \<and> value_coder (TupleCoder_init [VarIntCoder]) = Inl ValueError
   \<and> \<not> is_kv_coder (TupleCoder_init [VarIntCoder, BytesCoder, StrUtf8Coder])
   \<and> key_coder (TupleCoder_init [VarIntCoder, BytesCoder, StrUtf8Coder]) = Inl ValueError
   \<and> value_coder (TupleCoder_init [VarIntCoder, BytesCoder, StrUtf8Coder]) = Inl ValueError
   \<and> is_kv_coder (TupleCoder_init [VarIntCoder, BytesCoder])
   \<and> key_coder (TupleCoder_init [VarIntCoder, BytesCoder]) = Inr VarIntCoder
   \<and> value_coder (TupleCoder_init [VarIntCoder, BytesCoder]) = Inr BytesCoder"
  using tuple_coder_kv_duality [of VarIntCoder BytesCoder "[VarIntCoder]"]
    tuple_coder_kv_duality [of VarIntCoder BytesCoder "[VarIntCoder, BytesCoder, StrUtf8Coder]"]
  by simp

text \<open>
  Claim C8. The pickle-backed general-object coders (\<open>PickleCoder\<close> and \<open>DillCoder\<close>,
  the two subclasses of \<^verbatim>\<open>_PickleCoderBase\<close>) are not deterministic, report
  themselves as KV coders, and return themselves as key coder and as value coder.
\<close>

theorem pickle_coder_nondeterministic_kv:
  "\<not> is_deterministic PickleCoder \<and> is_kv_coder PickleCoder
   \<and> key_coder PickleCoder = Inr PickleCoder \<and> value_coder PickleCoder = Inr PickleCoder
   \<and> \<not> is_deterministic DillCoder \<and> is_kv_coder DillCoder
   \<and> key_coder DillCoder = Inr DillCoder \<and> value_coder DillCoder = Inr DillCoder"
  by simp

lemma length_two_cases: "length cs = 2 \<Longrightarrow> \<exists>a b. cs = [a, b]"
  by (cases cs; cases "tl cs") auto

lemma key_coder_size: "key_coder c = Inr k \<Longrightarrow> size k \<le> size c"
proof (induction c rule: key_coder.induct)
  case (6 cs)
  then show ?case by (auto split: if_splits dest!: length_two_cases)
qed (auto simp: base_kv_accessor_def split: if_splits)

lemma value_coder_size: "value_coder c = Inr k \<Longrightarrow> size k \<le> size c"
proof (induction c rule: value_coder.induct)
  case (6 cs)
  then show ?case by (auto split: if_splits dest!: length_two_cases)
qed (auto simp: base_kv_accessor_def split: if_splits)

text \<open>
  Claim C10. For every underlying coder \<open>u\<close> and label \<open>s\<close>, the deterministic
  fast-primitives coder over \<open>u\<close> reports itself as a KV coder and returns itself, not
  \<open>u\<close> nor a key or value coder of \<open>u\<close>, as key coder and as value coder, whether
  \<open>u\<close> is a KV coder or not.
\<close>

theorem deterministic_fast_primitives_kv_self:
  "is_kv_coder (DeterministicFastPrimitivesCoder u s)
   \<and> key_coder (DeterministicFastPrimitivesCoder u s) = Inr (DeterministicFastPrimitivesCoder u s)
   \<and> value_coder (DeterministicFastPrimitivesCoder u s) = Inr (DeterministicFastPrimitivesCoder u s)
   \<and> DeterministicFastPrimitivesCoder u s \<noteq> u
   \<and> key_coder u \<noteq> Inr (DeterministicFastPrimitivesCoder u s)
   \<and> value_coder u \<noteq> Inr (DeterministicFastPrimitivesCoder u s)"
proof -
  have "key_coder u \<noteq> Inr (DeterministicFastPrimitivesCoder u s)"
    using key_coder_size [of u "DeterministicFastPrimitivesCoder u s"] by auto
  moreover have "value_coder u \<noteq> Inr (DeterministicFastPrimitivesCoder u s)"
    using value_coder_size [of u "DeterministicFastPrimitivesCoder u s"] by auto
  ultimately show ?thesis by simp
qed

section \<open>Equality of coders\<close>

text \<open>
  Claim C3 (the code departs from it). \<^verbatim>\<open>TupleCoder.__eq__\<close>,
  \<^verbatim>\<open>TupleSequenceCoder.__eq__\<close> and \<^verbatim>\<open>IterableCoder.__eq__\<close> compare the
  components of \<^verbatim>\<open>self\<close> with themselves, so two such coders with different
  components are equal; \<^verbatim>\<open>LengthPrefixCoder.__eq__\<close> compares with the other
  coder's component and tells them apart.
\<close>

theorem composite_eq_ignores_components:
  "coder_eq (TupleCoder_init [VarIntCoder]) (TupleCoder_init [BytesCoder])
   \<and> coder_eq (TupleSequenceCoder VarIntCoder) (TupleSequenceCoder BytesCoder)
   \<and> coder_eq (IterableCoder VarIntCoder) (IterableCoder BytesCoder)
   \<and> \<not> coder_eq (LengthPrefixCoder VarIntCoder) (LengthPrefixCoder BytesCoder)"
  by (simp add: TupleCoder_init_def same_class_def)

section \<open>Interchange of coder descriptions\<close>

text \<open>
  Claim C5. A coder \<open>c\<close> that serializes gives a description \<open>kind $ blob\<close>, where
  \<open>kind\<close> is the class name of \<open>c\<close> (which has no \<open>$\<close>) and \<open>blob\<close> its
  serialized form. Provided the object serializer round-trips that blob,
  \<open>deserialize_coder\<close> inverts the description: it returns \<open>c\<close> itself, with every
  attribute and component coder, and the returned coder compares equal to \<open>c\<close>.
\<close>

theorem interchange_roundtrip:
  assumes "serialize_coder caps c = Inr d"
    and "\<forall>blob. pickler_dumps caps c = Inr blob \<longrightarrow> pickler_loads caps blob = Inr c"
  shows "(\<exists>blob. pickler_dumps caps c = Inr blob \<and> d = class_name c @ ''$'' @ blob)
    \<and> CHR ''$'' \<notin> set (class_name c)
    \<and> deserialize_coder caps d = Inr c
    \<and> coder_eq c c"
proof -
  from assms(1) obtain blob where blob: "pickler_dumps caps c = Inr blob"
    and d: "d = class_name c @ ''$'' @ blob"
    by (auto simp: serialize_coder_def split: sum.splits)
  from assms(2) blob have "pickler_loads caps blob = Inr c" by blast
  then have "deserialize_coder caps d = Inr c"
    unfolding d using deserialize_coder_tagged [OF class_name_no_dollar] by simp
  with blob d show ?thesis
    by (simp add: class_name_no_dollar coder_eq_refl)
qed

theorem interchange_roundtrip_witness:
  "serialize_coder reference_capabilities (TupleCoder_init [VarIntCoder, BytesCoder]) =
     Inr ''TupleCoder$c$T''
   \<and> deserialize_coder reference_capabilities ''TupleCoder$c$T'' =
     Inr (TupleCoder_init [VarIntCoder, BytesCoder])
   \<and> deserialize_coder reference_capabilities ''TupleCoder$c$T'' \<noteq> Inr (TupleCoder_init [])
   \<and> serialize_coder reference_capabilities VarIntCoder = Inr ''VarIntCoder$c$V''
   \<and> deserialize_coder reference_capabilities ''VarIntCoder$c$V'' = Inr VarIntCoder"
proof -
  have rt: "\<forall>blob. pickler_dumps reference_capabilities x = Inr blob \<longrightarrow>
      pickler_loads reference_capabilities blob = Inr x" for x
    by (simp add: reference_pickler_roundtrip)
  have ser1: "serialize_coder reference_capabilities (TupleCoder_init [VarIntCoder, BytesCoder]) =
      Inr ''TupleCoder$c$T''"
    by (simp add: serialize_coder_def TupleCoder_init_def reference_pickler_dumps_def)
  have ser2: "serialize_coder reference_capabilities VarIntCoder = Inr ''VarIntCoder$c$V''"
    by (simp add: serialize_coder_def reference_pickler_dumps_def)
  from interchange_roundtrip [OF ser1 rt] interchange_roundtrip [OF ser2 rt] ser1 ser2
  show ?thesis
    by (simp add: TupleCoder_init_def)
qed

text \<open>
  Claim C7, amended. \<open>deserialize_coder\<close> ignores the kind before the first \<open>$\<close>:
  on a description without a \<open>$\<close> it fails with \<open>IndexError\<close>, and on
  \<open>kind $ blob\<close> it returns what the object serializer returns on \<open>blob\<close>, the
  coder it loads or its failure, whatever \<open>kind\<close> is.
\<close>

theorem deserialize_coder_ignores_kind:
  "(CHR ''$'' \<notin> set s \<longrightarrow> deserialize_coder caps s = Inl IndexError)
   \<and> (CHR ''$'' \<notin> set kind \<longrightarrow>
        deserialize_coder caps (kind @ ''$'' @ blob) = pickler_loads caps blob)"
  using deserialize_coder_tagged [of kind caps blob] deserialize_coder_untagged [of s caps]
  by blast

theorem deserialize_coder_ignores_kind_witness:
  "deserialize_coder reference_capabilities ''VarIntCoder'' = Inl IndexError
   \<and> deserialize_coder reference_capabilities ''BytesCoder$c$V'' = Inr VarIntCoder
   \<and> deserialize_coder reference_capabilities ''VarIntCoder$corrupt'' =
       Inl (CapabilityError ''UnpicklingError'')"
  using deserialize_coder_ignores_kind [of "''VarIntCoder''" reference_capabilities "''BytesCoder''" "''c$V''"]
    deserialize_coder_ignores_kind [of "''VarIntCoder''" reference_capabilities "''VarIntCoder''" "''corrupt''"]
  by (simp add: reference_pickler_loads_def)

text \<open>
  The claim as stated fails: a description naming an unknown kind, with a blob the
  serializer loads, deserializes to a coder.
\<close>

theorem deserialize_coder_unknown_kind_counterexample:
  "deserialize_coder reference_capabilities ''NoSuchCoder$c$V'' = Inr VarIntCoder"
  by (simp add: deserialize_coder_def py_split1_def py_index_def reference_pickler_loads_def)

section \<open>The pair shape in the external schema\<close>

lemma pair_like_as_cloud_object_True:
  "pair_like_as_cloud_object caps self True = Inr d \<Longrightarrow>
   is_pair_like d = Some True \<and> (\<exists>a b. component_encodings d = Some [a, b])"
  by (auto split: sum.splits)

lemma as_cloud_objects_length:
  "as_cloud_objects caps cs = Inr ds \<Longrightarrow> length ds = length cs"
  by (induction cs arbitrary: ds) (auto split: sum.splits)

lemma Coder_as_cloud_object_total:
  "\<forall>x. \<exists>b. pickler_dumps caps x = Inr b \<Longrightarrow>
   \<exists>d. Coder_as_cloud_object caps self (Inr ds) = Inr d"
proof -
  assume "\<forall>x. \<exists>b. pickler_dumps caps x = Inr b"
  then obtain b where "pickler_dumps caps self = Inr b" by blast
  then show ?thesis by (simp add: Coder_as_cloud_object_def serialize_coder_def)
qed

lemma pair_like_as_cloud_object_total:
  "\<forall>x. \<exists>b. pickler_dumps caps x = Inr b \<Longrightarrow>
   \<exists>d. pair_like_as_cloud_object caps self True = Inr d"
  using Coder_as_cloud_object_total [of caps self "[]"] by auto

lemma as_cloud_object_total:
  "\<forall>x. \<exists>b. pickler_dumps caps x = Inr b \<Longrightarrow> \<exists>d. as_cloud_object caps c = Inr d"
  "\<forall>x. \<exists>b. pickler_dumps caps x = Inr b \<Longrightarrow> \<exists>ds. as_cloud_objects caps cs = Inr ds"
proof (induction caps c and caps cs rule: as_cloud_object_as_cloud_objects.induct)
  case (4 caps cs)
  show ?case
  proof (cases "length cs = 2")
    case True
    with 4 obtain ds where "as_cloud_objects caps cs = Inr ds" by auto
    with True show ?thesis by simp
  next
    case False
    with 4 obtain ds where ds: "as_cloud_objects caps cs = Inr ds" by auto
    from Coder_as_cloud_object_total [OF 4(3)]
    obtain d where "Coder_as_cloud_object caps (TupleCoder cs) (Inr ds) = Inr d"
      by blast
    with ds False show ?thesis by simp
  qed
next
  case (5 caps e)
  then obtain d where d: "as_cloud_object caps e = Inr d" by auto
  from Coder_as_cloud_object_total [OF 5(2)]
  obtain d' where "Coder_as_cloud_object caps (TupleSequenceCoder e) (Inr [d]) = Inr d'"
    by blast
  with d show ?case by simp
qed (use Coder_as_cloud_object_total pair_like_as_cloud_object_total in
    \<open>auto split: sum.splits\<close>)

text \<open>
  Claim C6, amended. A two-component tuple coder, a pickle-backed coder and a
  fast-primitives coder are KV coders, and their external schema has \<open>is_pair_like\<close>
  true and exactly two component schemas: for the tuple coder \<open>kind:pair\<close> with the
  schemas of its key coder and its value coder, for the other two the coder's own
  description with two copies of its plain schema. A windowed-value coder, also one that
  wraps a KV coder, has the schema \<open>kind:windowed_value\<close> with \<open>is_wrapper\<close> true, no
  \<open>is_pair_like\<close> key, and as its two components the schema of its value coder followed
  by the schema of its window coder. The schema exists whenever the object serializer
  serializes every coder.
\<close>

theorem kv_cloud_object_shape:
  "(\<forall>d. as_cloud_object caps c = Inr d \<longrightarrow>
      (pair_like_kind c \<longrightarrow>
         is_kv_coder c \<and> is_pair_like d = Some True
         \<and> (\<exists>a b. component_encodings d = Some [a, b]))
      \<and> (\<forall>k v. c = TupleCoder [k, v] \<longrightarrow>
           (\<exists>dk dv. as_cloud_object caps k = Inr dk \<and> as_cloud_object caps v = Inr dv
              \<and> d = CloudObject ''kind:pair'' (Some True) None None (Some [dk, dv])))
      \<and> (c = PickleCoder \<or> c = DillCoder \<or> (\<exists>f. c = FastPrimitivesCoder f) \<longrightarrow>
           (\<exists>t. serialize_coder caps c = Inr t
              \<and> d = CloudObject t (Some True) None None
                    (Some [CloudObject t None None None (Some []),
                           CloudObject t None None None (Some [])])))
      \<and> (\<forall>w t wc. c = WindowedValueCoder w t wc \<longrightarrow>
           (\<exists>dw dwc. as_cloud_object caps w = Inr dw \<and> as_cloud_object caps wc = Inr dwc
              \<and> d = CloudObject ''kind:windowed_value'' None None (Some True)
                    (Some [dw, dwc]))))
   \<and> ((\<forall>x. \<exists>b. pickler_dumps caps x = Inr b) \<longrightarrow> (\<exists>d. as_cloud_object caps c = Inr d))"
proof -
  have shape: "is_kv_coder c \<and> is_pair_like d = Some True
      \<and> (\<exists>a b. component_encodings d = Some [a, b])"
    if "as_cloud_object caps c = Inr d" "pair_like_kind c" for d
  proof (cases c)
    case (TupleCoder cs)
    with that obtain ds where "as_cloud_objects caps cs = Inr ds" "length cs = 2"
      and d: "d = CloudObject ''kind:pair'' (Some True) None None (Some ds)"
      by (auto split: sum.splits)
    then have "length ds = 2" using as_cloud_objects_length by fastforce
    then obtain a b where "ds = [a, b]" using length_two_cases by blast
    with d TupleCoder \<open>length cs = 2\<close> show ?thesis by simp
  qed (use that pair_like_as_cloud_object_True in auto)
  have tuple: "\<exists>dk dv. as_cloud_object caps k = Inr dk \<and> as_cloud_object caps v = Inr dv
      \<and> d = CloudObject ''kind:pair'' (Some True) None None (Some [dk, dv])"
    if "as_cloud_object caps (TupleCoder [k, v]) = Inr d" for d k v
    using that by (auto split: sum.splits)
  have plain: "\<exists>t. serialize_coder caps x = Inr t
      \<and> d = CloudObject t (Some True) None None
            (Some [CloudObject t None None None (Some []),
                   CloudObject t None None None (Some [])])"
    if "pair_like_as_cloud_object caps x True = Inr d" for d x
    using that by (auto simp: Coder_as_cloud_object_def split: sum.splits)
  have pickle: "\<exists>t. serialize_coder caps c = Inr t
      \<and> d = CloudObject t (Some True) None None
            (Some [CloudObject t None None None (Some []),
                   CloudObject t None None None (Some [])])"
    if "as_cloud_object caps c = Inr d"
      "c = PickleCoder \<or> c = DillCoder \<or> (\<exists>f. c = FastPrimitivesCoder f)" for d
    using that plain [of c d] by auto
  have wv: "\<exists>dw dwc. as_cloud_object caps w = Inr dw \<and> as_cloud_object caps wc = Inr dwc
      \<and> d = CloudObject ''kind:windowed_value'' None None (Some True) (Some [dw, dwc])"
    if "as_cloud_object caps (WindowedValueCoder w t wc) = Inr d" for d w t wc
    using that by (auto split: sum.splits)
  have all: "(pair_like_kind c \<longrightarrow>
         is_kv_coder c \<and> is_pair_like d = Some True
         \<and> (\<exists>a b. component_encodings d = Some [a, b]))
      \<and> (\<forall>k v. c = TupleCoder [k, v] \<longrightarrow>
           (\<exists>dk dv. as_cloud_object caps k = Inr dk \<and> as_cloud_object caps v = Inr dv
              \<and> d = CloudObject ''kind:pair'' (Some True) None None (Some [dk, dv])))
      \<and> (c = PickleCoder \<or> c = DillCoder \<or> (\<exists>f. c = FastPrimitivesCoder f) \<longrightarrow>
           (\<exists>t. serialize_coder caps c = Inr t
              \<and> d = CloudObject t (Some True) None None
                    (Some [CloudObject t None None None (Some []),
                           CloudObject t None None None (Some [])])))
      \<and> (\<forall>w t wc. c = WindowedValueCoder w t wc \<longrightarrow>
           (\<exists>dw dwc. as_cloud_object caps w = Inr dw \<and> as_cloud_object caps wc = Inr dwc
              \<and> d = CloudObject ''kind:windowed_value'' None None (Some True)
                    (Some [dw, dwc])))"
    if d: "as_cloud_object caps c = Inr d" for d
  proof (intro conjI allI impI)
    assume "pair_like_kind c"
    with shape [OF d] show "is_kv_coder c" "is_pair_like d = Some True"
      "\<exists>a b. component_encodings d = Some [a, b]" by simp_all
  next
    fix k v assume "c = TupleCoder [k, v]"
    with d tuple show "\<exists>dk dv. as_cloud_object caps k = Inr dk
        \<and> as_cloud_object caps v = Inr dv
        \<and> d = CloudObject ''kind:pair'' (Some True) None None (Some [dk, dv])" by blast
  next
    assume "c = PickleCoder \<or> c = DillCoder \<or> (\<exists>f. c = FastPrimitivesCoder f)"
    with pickle [OF d] show "\<exists>t. serialize_coder caps c = Inr t
        \<and> d = CloudObject t (Some True) None None
              (Some [CloudObject t None None None (Some []),
                     CloudObject t None None None (Some [])])" .
  next
    fix w t wc assume "c = WindowedValueCoder w t wc"
    with d wv show "\<exists>dw dwc. as_cloud_object caps w = Inr dw
        \<and> as_cloud_object caps wc = Inr dwc
        \<and> d = CloudObject ''kind:windowed_value'' None None (Some True) (Some [dw, dwc])"
      by blast
  qed
  from all as_cloud_object_total(1) [of caps c] show ?thesis by blast
qed

theorem kv_cloud_object_shape_witness:
  "pair_like_kind (TupleCoder_init [VarIntCoder, BytesCoder])
   \<and> as_cloud_object reference_capabilities (TupleCoder_init [VarIntCoder, BytesCoder]) =
      Inr (CloudObject ''kind:pair'' (Some True) None None
             (Some [CloudObject ''VarIntCoder$c$V'' None None None (Some []),
                    CloudObject ''BytesCoder$c$B'' None None None (Some [])]))
   \<and> is_kv_coder (TupleCoder_init [VarIntCoder, BytesCoder])
   \<and> pair_like_kind PickleCoder
   \<and> as_cloud_object reference_capabilities PickleCoder =
      Inr (CloudObject ''PickleCoder$c$P'' (Some True) None None
             (Some [CloudObject ''PickleCoder$c$P'' None None None (Some []),
                    CloudObject ''PickleCoder$c$P'' None None None (Some [])]))
   \<and> as_cloud_object reference_capabilities
        (WindowedValueCoder_init VarIntCoder (Some IntervalWindowCoder)) =
      Inr (CloudObject ''kind:windowed_value'' None None (Some True)
             (Some [CloudObject ''VarIntCoder$c$V'' None None None (Some []),
                    CloudObject ''kind:interval_window'' None None None None]))"
  using kv_cloud_object_shape [of reference_capabilities "TupleCoder_init [VarIntCoder, BytesCoder]"]
    kv_cloud_object_shape [of reference_capabilities PickleCoder]
    kv_cloud_object_shape [of reference_capabilities
      "WindowedValueCoder_init VarIntCoder (Some IntervalWindowCoder)"]
  by (simp add: TupleCoder_init_def WindowedValueCoder_init_def Coder_as_cloud_object_def
      serialize_coder_def reference_pickler_dumps_def)

text \<open>
  The claim as stated fails: a windowed-value coder that wraps a KV coder reports itself as
  a KV coder, and its schema has no \<open>is_pair_like\<close> key.
\<close>

theorem windowed_kv_not_pair_like_counterexample:
  "is_kv_coder (WindowedValueCoder_init (TupleCoder_init [VarIntCoder, BytesCoder]) None)
   \<and> as_cloud_object reference_capabilities
        (WindowedValueCoder_init (TupleCoder_init [VarIntCoder, BytesCoder]) None) =
      Inr (CloudObject ''kind:windowed_value'' None None (Some True)
        (Some [CloudObject ''kind:pair'' (Some True) None None
                 (Some [CloudObject ''VarIntCoder$c$V'' None None None (Some []),
                        CloudObject ''BytesCoder$c$B'' None None None (Some [])]),
               CloudObject ''PickleCoder$c$P'' (Some True) None None
                 (Some [CloudObject ''PickleCoder$c$P'' None None None (Some []),
                        CloudObject ''PickleCoder$c$P'' None None None (Some [])])]))"
  by (simp add: WindowedValueCoder_init_def TupleCoder_init_def Coder_as_cloud_object_def
      serialize_coder_def reference_pickler_dumps_def)

section \<open>Size estimation\<close>

text \<open>
  Claim C9. For every inner coder and value, the size estimate of the length-prefix coder
  is the variable-length-integer size of the inner coder's estimate plus that estimate; it
  is computed from the inner coder's \<open>estimate_size\<close>, not from its encoding, and a
  failure of the inner estimate or of the size function is the failure of the whole.
\<close>

theorem length_prefix_estimate_size:
  "(estimate_size caps inner v = Inr n \<and> get_varint_size caps n = Inr s \<longrightarrow>
      estimate_size caps (LengthPrefixCoder inner) v = Inr (s + n))
   \<and> (estimate_size caps inner v = Inl e \<longrightarrow>
      estimate_size caps (LengthPrefixCoder inner) v = Inl e)
   \<and> (estimate_size caps inner v = Inr n \<and> get_varint_size caps n = Inl e \<longrightarrow>
      estimate_size caps (LengthPrefixCoder inner) v = Inl e)"
  by simp

theorem length_prefix_estimate_size_witness:
  "estimate_size reference_capabilities BytesCoder (PyStr ''abc'') = Inr 3
   \<and> get_varint_size reference_capabilities 3 = Inr 1
   \<and> estimate_size reference_capabilities (LengthPrefixCoder BytesCoder) (PyStr ''abc'') = Inr 4
   \<and> estimate_size reference_capabilities FastCoder (PyStr ''abc'') = Inl NotImplementedError
   \<and> estimate_size reference_capabilities (LengthPrefixCoder FastCoder) (PyStr ''abc'') =
       Inl NotImplementedError"
  using length_prefix_estimate_size [of reference_capabilities BytesCoder "PyStr ''abc''" 3 1]
    length_prefix_estimate_size [of reference_capabilities FastCoder "PyStr ''abc''" _ _
      NotImplementedError]
  by (simp add: FastCoder_estimate_size_def reference_get_varint_size_def)

section \<open>The round trip of encoding and decoding\<close>































lemma reference_pickle_roundtrip:
  "reference_pickle_dumps v = Inr p \<Longrightarrow> reference_pickle_loads p = Inr v"
  by (cases v) auto






end
